theory Spec2Isabelle
  imports Main "HOL-Library.Sublist"
begin

section \<open>The REST views of memex (memex/views.py)\<close>

text \<open>
  The module is the HTTP view layer of the annotation store. Its views call the
  storage, search, schema and presenter modules, which are not part of the module;
  they are taken as parameters (the record \<open>collab\<close> below). Everything the views
  themselves do is written out: the order of the calls, the exceptions raised, the
  writes to the response, and the events registered for delivery after commit.
\<close>

subsection \<open>Values\<close>

text \<open>What the \<open>json\<close> renderer receives: Python dicts, lists, strings, numbers, booleans.\<close>

datatype json =
    JNull
  | JBool bool
  | JInt int
  | JString string
  | JArray "json list"
  | JObject "(string \<times> json) list"

text \<open>\<open>d[k]\<close> on a rendered dict, \<open>None\<close> where the key is absent or the value is no dict.\<close>

fun json_get :: "json \<Rightarrow> string \<Rightarrow> json option" where
  "json_get (JObject kvs) k = map_of kvs k"
| "json_get _ k = None"

fun json_path :: "json \<Rightarrow> string list \<Rightarrow> json option" where
  "json_path j [] = Some j"
| "json_path j (k # ks) = (case json_get j k of None \<Rightarrow> None | Some j' \<Rightarrow> json_path j' ks)"

type_synonym appstruct = json

text \<open>
  The attributes of \<open>models.Annotation\<close> the views read (\<open>id\<close>, \<open>target_uri\<close>,
  \<open>groupid\<close>); \<open>ann_id\<close> is the attribute \<open>id\<close>. The remaining fields are opaque to
  the views and kept as one value.
\<close>

record annotation =
  ann_id :: string
  target_uri :: string
  groupid :: string
  document :: json

text \<open>The database session \<open>request.db\<close>: the stored annotations.\<close>

type_synonym session = "annotation list"

text \<open>\<open>AnnotationResource(annotation, group_service, links_service)\<close>; also the
  \<open>context\<close> of the read, update and delete views.\<close>

record 's annotation_resource =
  annotation :: annotation
  group_service :: 's
  links_service :: 's

definition AnnotationResource :: "annotation \<Rightarrow> 's \<Rightarrow> 's \<Rightarrow> 's annotation_resource" where
  "AnnotationResource ann gs ls = \<lparr>annotation = ann, group_service = gs, links_service = ls\<rparr>"

text \<open>The fields of \<open>request.response\<close> the views write.\<close>

record response =
  resp_status_code :: int
  resp_content_type :: string
  resp_content_type_params :: "(string \<times> string) list"

text \<open>
  The request. \<open>params\<close> is a multi-dict: an ordered list of key/value pairs in which
  a key may occur more than once (\<open>?a=1&a=2\<close>). \<open>json_body\<close> is \<open>None\<close> where
  reading \<open>request.json_body\<close> raises \<open>ValueError\<close>. \<open>stats\<close> is \<open>None\<close> where the
  request has no attribute \<open>stats\<close>.
\<close>

type_synonym multidict = "(string \<times> string) list"

record request =
  params :: multidict
  json_body :: "json option"
  stats :: "string option"
  db :: session
  response :: response

text \<open>\<open>AnnotationEvent(request, annotation_id, action)\<close>: the three constructor
  arguments, nothing else.\<close>

record annotation_event =
  event_request :: request
  event_annotation_id :: string
  event_action :: string

definition AnnotationEvent :: "request \<Rightarrow> string \<Rightarrow> string \<Rightarrow> annotation_event" where
  "AnnotationEvent request aid act =
     \<lparr>event_request = request, event_annotation_id = aid, event_action = act\<rparr>"

text \<open>
  The events registered with \<open>request.notify_after_commit\<close>, oldest first. They are
  kept beside the request rather than inside it, since an event holds the request.
\<close>

type_synonym hooks = "annotation_event list"

subsection \<open>Exceptions\<close>

text \<open>
  \<open>APIError\<close> carries a message and a status code; \<open>schemas.ValidationError\<close> carries
  a message. These are the two exception classes the module registers views for.
\<close>

record api_error =
  message :: string
  status_code :: int

datatype exn = APIError api_error | ValidationError string

text \<open>\<open>APIError.__init__(self, message, status_code=500)\<close>.\<close>

definition APIError_init :: "string \<Rightarrow> int option \<Rightarrow> api_error" where
  "APIError_init msg sc =
     \<lparr>message = msg, status_code = (case sc of None \<Rightarrow> 500 | Some c \<Rightarrow> c)\<rparr>"

text \<open>\<open>PayloadError.__init__\<close> calls the base initialiser with the fixed message
  (the translation string's message id) and \<open>status_code=400\<close>.\<close>

definition PayloadError :: api_error where
  "PayloadError =
     APIError_init ''Expected a valid JSON payload, but none was found!'' (Some 400)"

text \<open>The outcome of a view: what it returns or raises, and the request and the
  registered events as it leaves them.\<close>

type_synonym 'a outcome = "(exn + 'a) \<times> request \<times> hooks"

subsection \<open>Collaborators\<close>

text \<open>The key of \<open>request.find_service\<close>: an interface or a name.\<close>

datatype service_key = IGroupService | ServiceName string

text \<open>The value of \<open>params.pop(key, False)\<close>: the default \<open>False\<close> or a string.\<close>

datatype flag = PyFalse | PyStr string

fun truthy :: "flag \<Rightarrow> bool" where
  "truthy PyFalse = False"
| "truthy (PyStr s) = (s \<noteq> [])"

record search_result =
  total :: int
  annotation_ids :: "string list"
  reply_ids :: "string list"

text \<open>
  The functions of other modules that the views call. A storage or search call that
  raises returns the exception alone: what a failed call did to the session is owned
  by the storage layer and the enclosing transaction.
  \<^item> \<open>route_url\<close>: \<open>request.route_url(name, **kw)\<close>;
  \<^item> \<open>find_service\<close>: \<open>request.find_service\<close>;
  \<^item> \<open>CreateAnnotationSchema_validate request payload\<close>:
    \<open>schemas.CreateAnnotationSchema(request).validate(payload)\<close>;
  \<^item> \<open>UpdateAnnotationSchema_validate request uri group payload\<close>:
    \<open>schemas.UpdateAnnotationSchema(request, uri, group).validate(payload)\<close>;
  \<^item> \<open>create_annotation\<close>, \<open>update_annotation\<close>, \<open>delete_annotation\<close>,
    \<open>fetch_ordered_annotations\<close>: the functions of \<open>memex.storage\<close>;
  \<^item> \<open>Search_run request separate_replies stats params\<close>:
    \<open>search_lib.Search(request, separate_replies=..., stats=...).run(params)\<close>;
  \<^item> \<open>AnnotationJSONPresenter_asdict\<close>, \<open>AnnotationJSONLDPresenter_asdict\<close>: the
    presenters' \<open>asdict\<close>; \<open>CONTEXT_URL\<close>: \<open>AnnotationJSONLDPresenter.CONTEXT_URL\<close>.
\<close>

record 's collab =
  route_url :: "request \<Rightarrow> string \<Rightarrow> (string \<times> string) list \<Rightarrow> string"
  find_service :: "request \<Rightarrow> service_key \<Rightarrow> 's"
  CreateAnnotationSchema_validate :: "request \<Rightarrow> json \<Rightarrow> exn + appstruct"
  UpdateAnnotationSchema_validate :: "request \<Rightarrow> string \<Rightarrow> string \<Rightarrow> json \<Rightarrow> exn + appstruct"
  create_annotation :: "request \<Rightarrow> appstruct \<Rightarrow> 's \<Rightarrow> exn + annotation \<times> session"
  update_annotation :: "session \<Rightarrow> string \<Rightarrow> appstruct \<Rightarrow> exn + annotation \<times> session"
  delete_annotation :: "session \<Rightarrow> string \<Rightarrow> exn + session"
  fetch_ordered_annotations :: "session \<Rightarrow> string list \<Rightarrow> annotation list"
  Search_run :: "request \<Rightarrow> flag \<Rightarrow> string option \<Rightarrow> multidict \<Rightarrow> exn + search_result"
  AnnotationJSONPresenter_asdict :: "'s annotation_resource \<Rightarrow> json"
  AnnotationJSONLDPresenter_asdict :: "'s annotation_resource \<Rightarrow> json"
  CONTEXT_URL :: string

subsection \<open>Library functions\<close>

text \<open>
  \<open>s.replace(old, new)\<close> of Python: every non-overlapping occurrence of \<open>old\<close>,
  found from the left, is replaced. For the empty \<open>old\<close>, \<open>new\<close> is put before every
  character and at the end.
\<close>

function replace_nonempty :: "string \<Rightarrow> string \<Rightarrow> string \<Rightarrow> string" where
  "replace_nonempty old new s =
     (if s = [] \<or> old = [] then s
      else if prefix old s then new @ replace_nonempty old new (drop (length old) s)
      else hd s # replace_nonempty old new (tl s))"
  by pat_completeness auto
termination
  by (relation "measure (\<lambda>(old, new, s). length s)") auto

definition str_replace :: "string \<Rightarrow> string \<Rightarrow> string \<Rightarrow> string" where
  "str_replace s old new =
     (if old = [] then new @ concat (map (\<lambda>c. c # new) s) else replace_nonempty old new s)"

text \<open>
  \<open>MultiDict.pop(key, default)\<close>: the first item with the key is removed and its
  value returned; the default is returned where no item has the key.
\<close>

fun multidict_pop :: "string \<Rightarrow> flag \<Rightarrow> multidict \<Rightarrow> flag \<times> multidict" where
  "multidict_pop key dflt [] = (dflt, [])"
| "multidict_pop key dflt ((k, v) # items) =
     (if k = key then (PyStr v, items)
      else (case multidict_pop key dflt items of (r, items') \<Rightarrow> (r, (k, v) # items')))"

subsection \<open>Exception views\<close>

definition error_api :: "api_error \<Rightarrow> request \<Rightarrow> json \<times> request" where
  "error_api context request =
     (JObject [(''status'', JString ''failure''), (''reason'', JString (message context))],
      request\<lparr>response := (response request)\<lparr>resp_status_code := status_code context\<rparr>\<rparr>)"

definition error_validation :: "string \<Rightarrow> request \<Rightarrow> json \<times> request" where
  "error_validation context_message request =
     (JObject [(''status'', JString ''failure''), (''reason'', JString context_message)],
      request\<lparr>response := (response request)\<lparr>resp_status_code := 400\<rparr>\<rparr>)"

subsection \<open>Helpers\<close>

text \<open>\<open>_json_payload\<close>: the parsed body, or \<open>PayloadError\<close> where parsing raises.\<close>

definition json_payload :: "request \<Rightarrow> exn + json" where
  "json_payload request =
     (case json_body request of None \<Rightarrow> Inl (APIError PayloadError) | Some j \<Rightarrow> Inr j)"

text \<open>\<open>_present_annotations\<close>: fetch, then present each fetched annotation in turn.\<close>

definition present_annotations :: "'s collab \<Rightarrow> request \<Rightarrow> string list \<Rightarrow> json list" where
  "present_annotations c request ids =
     (let annotations = fetch_ordered_annotations c (db request) ids;
          group_service = find_service c request IGroupService;
          links_service = find_service c request (ServiceName ''links'')
      in map (\<lambda>ann. AnnotationJSONPresenter_asdict c
                       (AnnotationResource ann group_service links_service)) annotations)"

text \<open>\<open>_publish_annotation_event\<close>: the event is built from the request, the
  annotation's id and the action, and registered for delivery after commit.\<close>

definition publish_annotation_event :: "request \<Rightarrow> annotation \<Rightarrow> string \<Rightarrow> hooks \<Rightarrow> hooks" where
  "publish_annotation_event request ann act after_commit =
     after_commit @ [AnnotationEvent request (ann_id ann) act]"

subsection \<open>Views\<close>

text \<open>
  \<open>index\<close>: the API descriptor. The annotation URL is generated for the id \<open>123\<close>,
  and \<open>123\<close> is then replaced by \<open>:id\<close>.
\<close>

definition index :: "'s collab \<Rightarrow> 'ctx \<Rightarrow> request \<Rightarrow> hooks \<Rightarrow> json outcome" where
  "index c context request after_commit =
     (let annotation_url =
            str_replace (route_url c request ''api.annotation'' [(''id'', ''123'')]) ''123'' '':id''
      in (Inr (JObject
           [(''message'', JString ''Annotator Store API''),
            (''links'', JObject
              [(''annotation'', JObject
                 [(''create'', JObject
                    [(''method'', JString ''POST''),
                     (''url'', JString (route_url c request ''api.annotations'' [])),
                     (''desc'', JString ''Create a new annotation'')]),
                  (''read'', JObject
                    [(''method'', JString ''GET''),
                     (''url'', JString annotation_url),
                     (''desc'', JString ''Get an existing annotation'')]),
                  (''update'', JObject
                    [(''method'', JString ''PUT''),
                     (''url'', JString annotation_url),
                     (''desc'', JString ''Update an existing annotation'')]),
                  (''delete'', JObject
                    [(''method'', JString ''DELETE''),
                     (''url'', JString annotation_url),
                     (''desc'', JString ''Delete an annotation'')])]),
               (''search'', JObject
                 [(''method'', JString ''GET''),
                  (''url'', JString (route_url c request ''api.search'' [])),
                  (''desc'', JString ''Basic search API'')])])]),
          request, after_commit))"

text \<open>
  \<open>search\<close>: \<open>_separate_replies\<close> is popped from a copy of the parameters; the copy
  goes to the search, the popped value decides whether \<open>replies\<close> is added.
\<close>

definition search :: "'s collab \<Rightarrow> request \<Rightarrow> hooks \<Rightarrow> json outcome" where
  "search c request after_commit =
     (case multidict_pop ''_separate_replies'' PyFalse (params request) of
        (separate_replies, params') \<Rightarrow>
          (case Search_run c request separate_replies (stats request) params' of
             Inl e \<Rightarrow> (Inl e, request, after_commit)
           | Inr result \<Rightarrow>
               (let out = [(''total'', JInt (total result)),
                           (''rows'', JArray (present_annotations c request (annotation_ids result)))];
                    out = (if truthy separate_replies
                           then out @ [(''replies'',
                                  JArray (present_annotations c request (reply_ids result)))]
                           else out)
                in (Inr (JObject out), request, after_commit))))"

text \<open>\<open>create\<close>: parse, validate, store, publish, present.\<close>

definition create :: "'s collab \<Rightarrow> request \<Rightarrow> hooks \<Rightarrow> json outcome" where
  "create c request after_commit =
     (case json_payload request of
        Inl e \<Rightarrow> (Inl e, request, after_commit)
      | Inr payload \<Rightarrow>
          (case CreateAnnotationSchema_validate c request payload of
             Inl e \<Rightarrow> (Inl e, request, after_commit)
           | Inr appstruct \<Rightarrow>
               (case create_annotation c request appstruct (find_service c request IGroupService) of
                  Inl e \<Rightarrow> (Inl e, request, after_commit)
                | Inr (ann, db') \<Rightarrow>
                    (let request = request\<lparr>db := db'\<rparr>;
                         after_commit = publish_annotation_event request ann ''create'' after_commit;
                         links_service = find_service c request (ServiceName ''links'');
                         group_service = find_service c request IGroupService;
                         resource = AnnotationResource ann group_service links_service
                     in (Inr (AnnotationJSONPresenter_asdict c resource), request, after_commit)))))"

definition read :: "'s collab \<Rightarrow> 's annotation_resource \<Rightarrow> request \<Rightarrow> hooks \<Rightarrow> json outcome" where
  "read c context request after_commit =
     (Inr (AnnotationJSONPresenter_asdict c context), request, after_commit)"

definition read_jsonld :: "'s collab \<Rightarrow> 's annotation_resource \<Rightarrow> request \<Rightarrow> hooks \<Rightarrow> json outcome" where
  "read_jsonld c context request after_commit =
     (let request = request\<lparr>response := (response request)
                      \<lparr>resp_content_type := ''application/ld+json''\<rparr>\<rparr>;
          request = request\<lparr>response := (response request)
                      \<lparr>resp_content_type_params := [(''profile'', CONTEXT_URL c)]\<rparr>\<rparr>
      in (Inr (AnnotationJSONLDPresenter_asdict c context), request, after_commit))"

text \<open>\<open>update\<close>: the schema is built from the context's annotation, before the
  payload is read.\<close>

definition update :: "'s collab \<Rightarrow> 's annotation_resource \<Rightarrow> request \<Rightarrow> hooks \<Rightarrow> json outcome" where
  "update c context request after_commit =
     (case json_payload request of
        Inl e \<Rightarrow> (Inl e, request, after_commit)
      | Inr payload \<Rightarrow>
          (case UpdateAnnotationSchema_validate c request
                  (target_uri (annotation context)) (groupid (annotation context)) payload of
             Inl e \<Rightarrow> (Inl e, request, after_commit)
           | Inr appstruct \<Rightarrow>
               (case update_annotation c (db request) (ann_id (annotation context)) appstruct of
                  Inl e \<Rightarrow> (Inl e, request, after_commit)
                | Inr (ann, db') \<Rightarrow>
                    (let request = request\<lparr>db := db'\<rparr>;
                         after_commit = publish_annotation_event request ann ''update'' after_commit;
                         links_service = find_service c request (ServiceName ''links'');
                         group_service = find_service c request IGroupService;
                         resource = AnnotationResource ann group_service links_service
                     in (Inr (AnnotationJSONPresenter_asdict c resource), request, after_commit)))))"

text \<open>\<open>delete\<close>: the annotation is deleted by id, then the event is published
  through \<open>_publish_annotation_event\<close> with the context's annotation.\<close>

definition delete :: "'s collab \<Rightarrow> 's annotation_resource \<Rightarrow> request \<Rightarrow> hooks \<Rightarrow> json outcome" where
  "delete c context request after_commit =
     (case delete_annotation c (db request) (ann_id (annotation context)) of
        Inl e \<Rightarrow> (Inl e, request, after_commit)
      | Inr db' \<Rightarrow>
          (let request = request\<lparr>db := db'\<rparr>;
               after_commit =
                 publish_annotation_event request (annotation context) ''delete'' after_commit
           in (Inr (JObject [(''id'', JString (ann_id (annotation context))),
                             (''deleted'', JBool True)]),
               request, after_commit)))"

subsection \<open>Dispatch\<close>

text \<open>
  The views by name, and what the client receives: the view's return value, or, where
  the view raises, the return value of the exception view registered for the class
  of the exception (\<open>error_api\<close> for \<open>APIError\<close>, \<open>error_validation\<close> for
  \<open>ValidationError\<close>).
\<close>

datatype view = V_index | V_search | V_create | V_read | V_read_jsonld | V_update | V_delete

fun call_view :: "'s collab \<Rightarrow> view \<Rightarrow> 's annotation_resource \<Rightarrow> request \<Rightarrow> hooks \<Rightarrow> json outcome" where
  "call_view c V_index context request q = index c context request q"
| "call_view c V_search context request q = search c request q"
| "call_view c V_create context request q = create c request q"
| "call_view c V_read context request q = read c context request q"
| "call_view c V_read_jsonld context request q = read_jsonld c context request q"
| "call_view c V_update context request q = update c context request q"
| "call_view c V_delete context request q = delete c context request q"

definition handle_request ::
  "'s collab \<Rightarrow> view \<Rightarrow> 's annotation_resource \<Rightarrow> request \<Rightarrow> hooks \<Rightarrow> json \<times> request \<times> hooks" where
  "handle_request c v context request q =
     (case call_view c v context request q of
        (Inr body, request', q') \<Rightarrow> (body, request', q')
      | (Inl (APIError e), request', q') \<Rightarrow>
          (case error_api e request' of (body, request'') \<Rightarrow> (body, request'', q'))
      | (Inl (ValidationError m), request', q') \<Rightarrow>
          (case error_validation m request' of (body, request'') \<Rightarrow> (body, request'', q')))"

subsection \<open>A concrete instance of the collaborators\<close>

text \<open>
  A small storage, search, schema and presenter on which the views can be evaluated:
  the session is searched by field (every parameter handed to the search is a field
  filter), an annotation whose document has a \<open>references\<close> key is a reply, the create
  schema requires a \<open>uri\<close>, and the update schema refuses a change of group.
\<close>

definition field :: "annotation \<Rightarrow> string \<Rightarrow> string option" where
  "field a k =
     (if k = ''uri'' then Some (target_uri a)
      else if k = ''group'' then Some (groupid a)
      else None)"

definition is_reply :: "annotation \<Rightarrow> bool" where
  "is_reply a = (json_get (document a) ''references'' \<noteq> None)"

definition demo_search :: "request \<Rightarrow> flag \<Rightarrow> string option \<Rightarrow> multidict \<Rightarrow> exn + search_result" where
  "demo_search request separate_replies st query =
     (let hits = filter (\<lambda>a. list_all (\<lambda>kv. field a (fst kv) = Some (snd kv)) query) (db request)
      in Inr \<lparr>total = int (length hits),
              annotation_ids =
                map ann_id (if truthy separate_replies
                            then filter (\<lambda>a. \<not> is_reply a) hits else hits),
              reply_ids =
                (if truthy separate_replies then map ann_id (filter is_reply hits) else [])\<rparr>)"

definition demo_present :: "unit annotation_resource \<Rightarrow> json" where
  "demo_present res =
     JObject [(''id'', JString (ann_id (annotation res))),
              (''uri'', JString (target_uri (annotation res))),
              (''group'', JString (groupid (annotation res)))]"

definition demo_present_ld :: "unit annotation_resource \<Rightarrow> json" where
  "demo_present_ld res =
     JObject [(''@context'', JString ''http://www.w3.org/ns/anno.jsonld''),
              (''id'', JString (ann_id (annotation res)))]"

definition demo :: "unit collab" where
  "demo =
     \<lparr>route_url = (\<lambda>request name kw.
         ''http://h123.example/api'' @
           (if name = ''api.annotation''
            then ''/annotations/'' @ (case map_of kw ''id'' of None \<Rightarrow> [] | Some i \<Rightarrow> i)
            else if name = ''api.annotations'' then ''/annotations''
            else if name = ''api.search'' then ''/search'' else [])),
      find_service = (\<lambda>request key. ()),
      CreateAnnotationSchema_validate = (\<lambda>request payload.
         (case json_get payload ''uri'' of
            Some (JString u) \<Rightarrow> Inr payload
          | _ \<Rightarrow> Inl (ValidationError ''uri: Required''))),
      UpdateAnnotationSchema_validate = (\<lambda>request uri group payload.
         (case json_get payload ''group'' of
            None \<Rightarrow> Inr payload
          | Some g \<Rightarrow> if g = JString group then Inr payload
                      else Inl (ValidationError ''group: may not be changed''))),
      create_annotation = (\<lambda>request appstruct gs.
         (let a = \<lparr>ann_id = ''new'',
                   target_uri = (case json_get appstruct ''uri'' of
                                   Some (JString u) \<Rightarrow> u | _ \<Rightarrow> []),
                   groupid = ''__world__'',
                   document = appstruct\<rparr>
          in Inr (a, db request @ [a]))),
      update_annotation = (\<lambda>s i appstruct.
         (case find (\<lambda>a. ann_id a = i) s of
            None \<Rightarrow> Inl (APIError (APIError_init ''not found'' None))
          | Some a \<Rightarrow>
              Inr (a\<lparr>document := appstruct\<rparr>,
                   map (\<lambda>b. if ann_id b = i then b\<lparr>document := appstruct\<rparr> else b) s))),
      delete_annotation = (\<lambda>s i. Inr (filter (\<lambda>a. ann_id a \<noteq> i) s)),
      fetch_ordered_annotations = (\<lambda>s ids. List.map_filter (\<lambda>i. find (\<lambda>a. ann_id a = i) s) ids),
      Search_run = demo_search,
      AnnotationJSONPresenter_asdict = demo_present,
      AnnotationJSONLDPresenter_asdict = demo_present_ld,
      CONTEXT_URL = ''http://www.w3.org/ns/anno.jsonld''\<rparr>"

definition a1 :: annotation where
  "a1 = \<lparr>ann_id = ''a1'', target_uri = ''http://example.com/page'',
         groupid = ''__world__'', document = JObject [(''text'', JString ''hello'')]\<rparr>"

definition a2 :: annotation where
  "a2 = \<lparr>ann_id = ''a2'', target_uri = ''http://example.com/page'',
         groupid = ''__world__'', document = JObject [(''references'', JArray [JString ''a1''])]\<rparr>"

definition ctx1 :: "unit annotation_resource" where
  "ctx1 = AnnotationResource a1 () ()"

definition req :: "multidict \<Rightarrow> json option \<Rightarrow> request" where
  "req ps body =
     \<lparr>params = ps, json_body = body, stats = None, db = [a1, a2],
      response = \<lparr>resp_status_code = 200, resp_content_type = ''application/json'',
                  resp_content_type_params = []\<rparr>\<rparr>"





section \<open>Properties\<close>

declare replace_nonempty.simps [simp del]

subsection \<open>Auxiliary facts\<close>

lemma multidict_pop_value:
  "fst (multidict_pop k PyFalse ps) = (case map_of ps k of None \<Rightarrow> PyFalse | Some v \<Rightarrow> PyStr v)"
  by (induction ps) (auto split: prod.splits)

lemma multidict_pop_absent:
  "k \<notin> fst ` set ps \<Longrightarrow> multidict_pop k d ps = (d, ps)"
  by (induction ps) auto

lemma filter_absent:
  "k \<notin> fst ` set ps \<Longrightarrow> filter (\<lambda>kv. fst kv \<noteq> k) ps = ps"
  by (induction ps) auto

lemma multidict_pop_single:
  "length (filter (\<lambda>kv. fst kv = k) ps) \<le> 1 \<Longrightarrow> k \<notin> fst ` set (snd (multidict_pop k d ps))"
proof (induction ps)
  case Nil
  then show ?case by simp
next
  case (Cons kv ps)
  obtain k' v where kv: "kv = (k', v)" by (cases kv)
  show ?case
  proof (cases "k' = k")
    case True
    with Cons.prems kv have "filter (\<lambda>kv. fst kv = k) ps = []" by simp
    then have "k \<notin> fst ` set ps" by (auto simp: filter_empty_conv)
    with True kv show ?thesis by simp
  next
    case False
    with Cons kv show ?thesis by (auto split: prod.splits)
  qed
qed

lemma search_unfold:
  "search c request q =
     (let sep = fst (multidict_pop ''_separate_replies'' PyFalse (params request));
          query = snd (multidict_pop ''_separate_replies'' PyFalse (params request))
      in case Search_run c request sep (stats request) query of
           Inl e \<Rightarrow> (Inl e, request, q)
         | Inr result \<Rightarrow>
             (Inr (JObject
                ([(''total'', JInt (total result)),
                  (''rows'', JArray (present_annotations c request (annotation_ids result)))] @
                 (if truthy sep
                  then [(''replies'', JArray (present_annotations c request (reply_ids result)))]
                  else []))),
              request, q))"
  by (simp add: search_def Let_def split: prod.splits sum.splits)

lemma create_unfold:
  "create c request q =
     (case json_body request of
        None \<Rightarrow> (Inl (APIError PayloadError), request, q)
      | Some payload \<Rightarrow>
          (case CreateAnnotationSchema_validate c request payload of
             Inl e \<Rightarrow> (Inl e, request, q)
           | Inr appstruct \<Rightarrow>
               (case create_annotation c request appstruct (find_service c request IGroupService) of
                  Inl e \<Rightarrow> (Inl e, request, q)
                | Inr (ann, s) \<Rightarrow>
                    (Inr (AnnotationJSONPresenter_asdict c
                            (AnnotationResource ann
                               (find_service c (request\<lparr>db := s\<rparr>) IGroupService)
                               (find_service c (request\<lparr>db := s\<rparr>) (ServiceName ''links'')))),
                     request\<lparr>db := s\<rparr>,
                     q @ [AnnotationEvent (request\<lparr>db := s\<rparr>) (ann_id ann) ''create'']))))"
  by (simp add: create_def json_payload_def publish_annotation_event_def Let_def
           split: option.splits sum.splits prod.splits)

lemma update_unfold:
  "update c ctx request q =
     (case json_body request of
        None \<Rightarrow> (Inl (APIError PayloadError), request, q)
      | Some payload \<Rightarrow>
          (case UpdateAnnotationSchema_validate c request
                  (target_uri (annotation ctx)) (groupid (annotation ctx)) payload of
             Inl e \<Rightarrow> (Inl e, request, q)
           | Inr appstruct \<Rightarrow>
               (case update_annotation c (db request) (ann_id (annotation ctx)) appstruct of
                  Inl e \<Rightarrow> (Inl e, request, q)
                | Inr (ann, s) \<Rightarrow>
                    (Inr (AnnotationJSONPresenter_asdict c
                            (AnnotationResource ann
                               (find_service c (request\<lparr>db := s\<rparr>) IGroupService)
                               (find_service c (request\<lparr>db := s\<rparr>) (ServiceName ''links'')))),
                     request\<lparr>db := s\<rparr>,
                     q @ [AnnotationEvent (request\<lparr>db := s\<rparr>) (ann_id ann) ''update'']))))"
  by (simp add: update_def json_payload_def publish_annotation_event_def Let_def
           split: option.splits sum.splits prod.splits)

lemma delete_unfold:
  "delete c ctx request q =
     (case delete_annotation c (db request) (ann_id (annotation ctx)) of
        Inl e \<Rightarrow> (Inl e, request, q)
      | Inr s \<Rightarrow>
          (Inr (JObject [(''id'', JString (ann_id (annotation ctx))), (''deleted'', JBool True)]),
           request\<lparr>db := s\<rparr>,
           q @ [AnnotationEvent (request\<lparr>db := s\<rparr>) (ann_id (annotation ctx)) ''delete'']))"
  by (simp add: delete_def publish_annotation_event_def Let_def split: sum.splits)

lemma create_events:
  "(case create c request q of
      (Inr body, request', q') \<Rightarrow>
        (\<exists>payload appstruct ann.
           json_body request = Some payload \<and>
           CreateAnnotationSchema_validate c request payload = Inr appstruct \<and>
           create_annotation c request appstruct (find_service c request IGroupService)
             = Inr (ann, db request') \<and>
           request' = request\<lparr>db := db request'\<rparr> \<and>
           q' = q @ [AnnotationEvent request' (ann_id ann) ''create''])
    | (Inl e, request', q') \<Rightarrow> q' = q \<and> request' = request)"
  by (simp add: create_unfold split: option.splits sum.splits prod.splits)

lemma update_events:
  "(case update c ctx request q of
      (Inr body, request', q') \<Rightarrow>
        (\<exists>payload appstruct ann.
           json_body request = Some payload \<and>
           UpdateAnnotationSchema_validate c request
             (target_uri (annotation ctx)) (groupid (annotation ctx)) payload
             = Inr appstruct \<and>
           update_annotation c (db request) (ann_id (annotation ctx)) appstruct
             = Inr (ann, db request') \<and>
           request' = request\<lparr>db := db request'\<rparr> \<and>
           q' = q @ [AnnotationEvent request' (ann_id ann) ''update''])
    | (Inl e, request', q') \<Rightarrow> q' = q \<and> request' = request)"
  by (simp add: update_unfold split: option.splits sum.splits prod.splits)

lemma delete_events:
  "(case delete c ctx request q of
      (Inr body, request', q') \<Rightarrow>
        delete_annotation c (db request) (ann_id (annotation ctx)) = Inr (db request') \<and>
        request' = request\<lparr>db := db request'\<rparr> \<and>
        q' = q @ [AnnotationEvent request' (ann_id (annotation ctx)) ''delete'']
    | (Inl e, request', q') \<Rightarrow> q' = q \<and> request' = request)"
  by (simp add: delete_unfold split: sum.splits)

subsection \<open>The delete event\<close>

text \<open>
  C1. The claim: a successful delete publishes an event that carries the pre-deletion
  annotation object with its original fields, in particular its target URI. The view
  hands the annotation to \<open>_publish_annotation_event\<close>, which builds the event from
  \<open>annotation.id\<close> alone. Evaluated on the example session: deleting \<open>a1\<close> registers
  an event holding the request, the id \<open>a1\<close> and the action; the same event is
  registered when the annotation in the context has another target URI.
\<close>

theorem delete_event_holds_id_only:
  "snd (snd (delete demo (AnnotationResource a1 () ()) (req [] None) [])) =
     [\<lparr>event_request = (req [] None)\<lparr>db := [a2]\<rparr>,
       event_annotation_id = ''a1'', event_action = ''delete''\<rparr>]
   \<and> snd (snd (delete demo
          (AnnotationResource (a1\<lparr>target_uri := ''http://other.example/''\<rparr>) () ())
          (req [] None) [])) =
     [\<lparr>event_request = (req [] None)\<lparr>db := [a2]\<rparr>,
       event_annotation_id = ''a1'', event_action = ''delete''\<rparr>]"
  by (simp add: delete_unfold demo_def AnnotationResource_def AnnotationEvent_def
        req_def a1_def a2_def)

subsection \<open>Events of the mutating views\<close>

text \<open>
  C2. Each of create, update and delete, when it returns, has registered exactly one
  event for delivery after commit, built from the request as the storage call left
  it; when it raises, the registered events and the request (with its session) are
  as they were before the call.
\<close>

theorem one_event_per_successful_mutation:
  "(case create c request q of
      (Inr body, request', q') \<Rightarrow>
        (\<exists>payload appstruct ann.
           json_body request = Some payload \<and>
           CreateAnnotationSchema_validate c request payload = Inr appstruct \<and>
           create_annotation c request appstruct (find_service c request IGroupService)
             = Inr (ann, db request') \<and>
           request' = request\<lparr>db := db request'\<rparr> \<and>
           q' = q @ [AnnotationEvent request' (ann_id ann) ''create''])
    | (Inl e, request', q') \<Rightarrow> q' = q \<and> request' = request)
   \<and>
   (case update c ctx request q of
      (Inr body, request', q') \<Rightarrow>
        (\<exists>payload appstruct ann.
           json_body request = Some payload \<and>
           UpdateAnnotationSchema_validate c request
             (target_uri (annotation ctx)) (groupid (annotation ctx)) payload
             = Inr appstruct \<and>
           update_annotation c (db request) (ann_id (annotation ctx)) appstruct
             = Inr (ann, db request') \<and>
           request' = request\<lparr>db := db request'\<rparr> \<and>
           q' = q @ [AnnotationEvent request' (ann_id ann) ''update''])
    | (Inl e, request', q') \<Rightarrow> q' = q \<and> request' = request)
   \<and>
   (case delete c ctx request q of
      (Inr body, request', q') \<Rightarrow>
        delete_annotation c (db request) (ann_id (annotation ctx)) = Inr (db request') \<and>
        request' = request\<lparr>db := db request'\<rparr> \<and>
        q' = q @ [AnnotationEvent request' (ann_id (annotation ctx)) ''delete'']
    | (Inl e, request', q') \<Rightarrow> q' = q \<and> request' = request)"
  by (rule conjI [OF create_events conjI [OF update_events delete_events]])

theorem one_event_per_successful_mutation_witness:
  "(\<exists>body request'. create demo (req [] (Some (JObject [(''uri'', JString ''http://x'')]))) []
       = (Inr body, request', [AnnotationEvent request' ''new'' ''create'']))
   \<and> (\<exists>body request'. update demo ctx1 (req [] (Some (JObject [(''uri'', JString ''http://x'')]))) []
       = (Inr body, request', [AnnotationEvent request' ''a1'' ''update'']))
   \<and> (\<exists>body request'. delete demo ctx1 (req [] (Some (JObject [(''uri'', JString ''http://x'')]))) []
       = (Inr body, request', [AnnotationEvent request' ''a1'' ''delete'']))
   \<and> create demo (req [] (Some (JObject [(''text'', JString ''hello'')]))) []
       = (Inl (ValidationError ''uri: Required''),
          req [] (Some (JObject [(''text'', JString ''hello'')])), [])"
  using one_event_per_successful_mutation
          [where c = demo and q = "[]" and ctx = ctx1
             and request = "req [] (Some (JObject [(''uri'', JString ''http://x'')]))"]
  by (simp add: create_unfold update_unfold delete_unfold demo_def ctx1_def
        AnnotationResource_def req_def a1_def a2_def Let_def)

subsection \<open>Errors\<close>

text \<open>
  C3. Whichever view raises, the client receives the body
  \<open>{"status": "failure", "reason": message}\<close> with the message of the exception; the
  response status is the status code of an \<open>APIError\<close> and 400 for a
  \<open>ValidationError\<close>. The status code of a \<open>PayloadError\<close> is 400, and that of an
  \<open>APIError\<close> built without a status code is 500.
\<close>

theorem error_envelope:
  assumes "call_view c v ctx request q = (Inl e, request', q')"
  shows "handle_request c v ctx request q =
           (JObject [(''status'', JString ''failure''),
                     (''reason'', JString (case e of APIError a \<Rightarrow> message a
                                                    | ValidationError m \<Rightarrow> m))],
            request'\<lparr>response := (response request')
               \<lparr>resp_status_code := (case e of APIError a \<Rightarrow> status_code a
                                              | ValidationError m \<Rightarrow> 400)\<rparr>\<rparr>,
            q')
         \<and> status_code PayloadError = 400
         \<and> (\<forall>msg. status_code (APIError_init msg None) = 500)"
  using assms
  by (simp add: handle_request_def error_api_def error_validation_def PayloadError_def
        APIError_init_def split: exn.splits)

theorem error_envelope_witness:
  "handle_request demo V_update ctx1 (req [] (Some (JObject [(''group'', JString ''other'')]))) [] =
     (JObject [(''status'', JString ''failure''),
               (''reason'', JString ''group: may not be changed'')],
      (req [] (Some (JObject [(''group'', JString ''other'')])))
        \<lparr>response := \<lparr>resp_status_code = 400, resp_content_type = ''application/json'',
                       resp_content_type_params = []\<rparr>\<rparr>,
      [])"
proof -
  have raised: "call_view demo V_update ctx1 (req [] (Some (JObject [(''group'', JString ''other'')]))) []
      = (Inl (ValidationError ''group: may not be changed''),
         req [] (Some (JObject [(''group'', JString ''other'')])), [])"
    by (simp add: update_unfold demo_def ctx1_def AnnotationResource_def req_def a1_def)
  show ?thesis
    using error_envelope [OF raised] by (simp add: req_def)
qed

text \<open>
  C4. A create or update request whose body does not parse raises \<open>PayloadError\<close>,
  with status code 400 and the fixed message; the client receives the failure body
  with that message and the status 400.
\<close>

theorem unparsable_body_is_payload_error:
  assumes "json_body request = None"
  shows "create c request q = (Inl (APIError PayloadError), request, q)
       \<and> update c ctx request q = (Inl (APIError PayloadError), request, q)
       \<and> status_code PayloadError = 400
       \<and> message PayloadError = ''Expected a valid JSON payload, but none was found!''
       \<and> handle_request c V_create ctx request q =
           (JObject [(''status'', JString ''failure''),
                     (''reason'', JString ''Expected a valid JSON payload, but none was found!'')],
            request\<lparr>response := (response request)\<lparr>resp_status_code := 400\<rparr>\<rparr>, q)
       \<and> handle_request c V_update ctx request q =
           (JObject [(''status'', JString ''failure''),
                     (''reason'', JString ''Expected a valid JSON payload, but none was found!'')],
            request\<lparr>response := (response request)\<lparr>resp_status_code := 400\<rparr>\<rparr>, q)"
  using assms
  by (simp add: create_unfold update_unfold handle_request_def error_api_def PayloadError_def
        APIError_init_def)

theorem unparsable_body_is_payload_error_witness:
  "json_body (req [] None) = None
   \<and> fst (create demo (req [] None) []) = Inl (APIError PayloadError)
   \<and> fst (update demo ctx1 (req [] None) []) = Inl (APIError PayloadError)
   \<and> fst (handle_request demo V_create ctx1 (req [] None) []) =
       JObject [(''status'', JString ''failure''),
                (''reason'', JString ''Expected a valid JSON payload, but none was found!'')]"
proof -
  have h: "json_body (req [] None) = None" by (simp add: req_def)
  show ?thesis
    using h unparsable_body_is_payload_error [OF h, of demo "[]" ctx1] by simp
qed

subsection \<open>Search\<close>



text \<open>
  C8. Whether \<open>replies\<close> is in the response is the truth value of the popped
  parameter value as a Python object: it is there exactly when the request has a
  \<open>_separate_replies\<close> parameter whose value (that of its first occurrence) is a
  non-empty string, whatever the string says. The search is called with that raw
  value as \<open>separate_replies\<close>.
\<close>

theorem separate_replies_is_truthiness_of_raw_value:
  assumes "search c request q = (Inr out, request', q')"
  shows "(json_get out ''replies'' \<noteq> None) =
           (\<exists>v. map_of (params request) ''_separate_replies'' = Some v \<and> v \<noteq> [])
       \<and> (\<exists>result.
             Search_run c request
               (case map_of (params request) ''_separate_replies'' of
                  None \<Rightarrow> PyFalse | Some v \<Rightarrow> PyStr v)
               (stats request)
               (snd (multidict_pop ''_separate_replies'' PyFalse (params request)))
             = Inr result)"
  using assms
  by (auto simp: search_unfold multidict_pop_value Let_def
           split: sum.splits option.splits if_splits)

theorem separate_replies_is_truthiness_of_raw_value_witness:
  "(\<exists>out request' q'. search demo (req [(''_separate_replies'', ''false'')] None) []
        = (Inr out, request', q') \<and> json_get out ''replies'' \<noteq> None)
   \<and> (\<exists>out request' q'. search demo (req [(''_separate_replies'', ''0'')] None) []
        = (Inr out, request', q') \<and> json_get out ''replies'' \<noteq> None)
   \<and> (\<exists>out request' q'. search demo (req [(''_separate_replies'', [])] None) []
        = (Inr out, request', q') \<and> json_get out ''replies'' = None)
   \<and> (\<exists>out request' q'. search demo (req [] None) []
        = (Inr out, request', q') \<and> json_get out ''replies'' = None)"
proof -
  have ran: "\<exists>out. search demo (req ps None) [] = (Inr out, req ps None, [])" for ps
    by (simp add: search_unfold demo_def demo_search_def Let_def)
  have "json_get out ''replies'' \<noteq> None"
    if "search demo (req [(''_separate_replies'', ''false'')] None) [] = (Inr out, r, q)" for out r q
    using separate_replies_is_truthiness_of_raw_value [OF that] by (simp add: req_def)
  moreover have "json_get out ''replies'' \<noteq> None"
    if "search demo (req [(''_separate_replies'', ''0'')] None) [] = (Inr out, r, q)" for out r q
    using separate_replies_is_truthiness_of_raw_value [OF that] by (simp add: req_def)
  moreover have "json_get out ''replies'' = None"
    if "search demo (req [(''_separate_replies'', [])] None) [] = (Inr out, r, q)" for out r q
    using separate_replies_is_truthiness_of_raw_value [OF that] by (simp add: req_def)
  moreover have "json_get out ''replies'' = None"
    if "search demo (req [] None) [] = (Inr out, r, q)" for out r q
    using separate_replies_is_truthiness_of_raw_value [OF that] by (simp add: req_def)
  ultimately show ?thesis
    using ran [of "[(''_separate_replies'', ''false'')]"] ran [of "[(''_separate_replies'', ''0'')]"]
      ran [of "[(''_separate_replies'', [])]"] ran [of "[]"]
    by metis
qed

text \<open>
  C10. The claim: the copy of the parameters handed to the search never holds
  \<open>_separate_replies\<close>. \<open>pop\<close> removes the first item with the key only. For
  the query \<open>?_separate_replies=1&_separate_replies=1\<close> the copy handed to the
  search still holds one \<open>_separate_replies\<close> item; the example search, which takes
  every parameter as a field filter, then finds nothing, where the same request with
  the parameter given once finds both annotations. The request's own parameters are
  as they were in both cases.
\<close>

theorem search_passes_on_repeated_separate_replies:
  "multidict_pop ''_separate_replies'' PyFalse
      (params (req [(''_separate_replies'', ''1''), (''_separate_replies'', ''1'')] None))
     = (PyStr ''1'', [(''_separate_replies'', ''1'')])
   \<and> search demo (req [(''_separate_replies'', ''1''), (''_separate_replies'', ''1'')] None) [] =
       (Inr (JObject [(''total'', JInt 0), (''rows'', JArray []), (''replies'', JArray [])]),
        req [(''_separate_replies'', ''1''), (''_separate_replies'', ''1'')] None, [])
   \<and> search demo (req [(''_separate_replies'', ''1'')] None) [] =
       (Inr (JObject
          [(''total'', JInt 2),
           (''rows'', JArray [demo_present (AnnotationResource a1 () ())]),
           (''replies'', JArray [demo_present (AnnotationResource a2 () ())])]),
        req [(''_separate_replies'', ''1'')] None, [])"
  by (simp add: search_unfold present_annotations_def demo_def demo_search_def field_def
        is_reply_def req_def a1_def a2_def List.map_filter_def Let_def)

text \<open>
  Where the parameter occurs at most once, the search does not receive it (removing
  the key from what the search is given changes nothing), and the request is returned
  as it was.
\<close>

lemma search_drops_single_separate_replies:
  assumes "length (filter (\<lambda>kv. fst kv = ''_separate_replies'') (params request)) \<le> 1"
  shows "search (c\<lparr>Search_run := \<lambda>r sep st query.
                     Search_run c r sep st (filter (\<lambda>kv. fst kv \<noteq> ''_separate_replies'') query)\<rparr>)
           request q
         = search c request q"
    and "snd (search c request q) = (request, q)"
proof -
  have "filter (\<lambda>kv. fst kv \<noteq> ''_separate_replies'')
          (snd (multidict_pop ''_separate_replies'' PyFalse (params request)))
        = snd (multidict_pop ''_separate_replies'' PyFalse (params request))"
    using multidict_pop_single [OF assms] by (rule filter_absent)
  then show "search (c\<lparr>Search_run := \<lambda>r sep st query.
                     Search_run c r sep st (filter (\<lambda>kv. fst kv \<noteq> ''_separate_replies'') query)\<rparr>)
           request q
         = search c request q"
    by (simp add: search_unfold present_annotations_def Let_def split: sum.splits)
  show "snd (search c request q) = (request, q)"
    by (simp add: search_unfold Let_def split: sum.splits)
qed

subsection \<open>Update\<close>

text \<open>
  C6. The update view validates the payload with the update schema built from the
  request and the target URI and group id of the annotation in the context, that is,
  the annotation as it is before the update. Where the validation raises, the view
  raises the same exception with the request, its session and the registered events
  as they were, whatever the storage's update function is. Where it returns and the
  storage returns the updated annotation, the view registers one \<open>update\<close> event with
  the id of the returned annotation and returns the presentation of that annotation.
\<close>

theorem update_validates_against_existing_annotation:
  assumes "json_body request = Some payload"
  shows "(\<forall>e. UpdateAnnotationSchema_validate c request
                 (target_uri (annotation ctx)) (groupid (annotation ctx)) payload = Inl e
              \<longrightarrow> (\<forall>f. update (c\<lparr>update_annotation := f\<rparr>) ctx request q = (Inl e, request, q)))
       \<and> (\<forall>appstruct ann s.
             UpdateAnnotationSchema_validate c request
                 (target_uri (annotation ctx)) (groupid (annotation ctx)) payload = Inr appstruct
             \<and> update_annotation c (db request) (ann_id (annotation ctx)) appstruct = Inr (ann, s)
              \<longrightarrow> update c ctx request q =
                    (Inr (AnnotationJSONPresenter_asdict c
                            (AnnotationResource ann
                               (find_service c (request\<lparr>db := s\<rparr>) IGroupService)
                               (find_service c (request\<lparr>db := s\<rparr>) (ServiceName ''links'')))),
                     request\<lparr>db := s\<rparr>,
                     q @ [AnnotationEvent (request\<lparr>db := s\<rparr>) (ann_id ann) ''update'']))"
  using assms by (simp add: update_unfold)

theorem update_validates_against_existing_annotation_witness:
  "update demo ctx1 (req [] (Some (JObject [(''group'', JString ''other'')]))) [] =
     (Inl (ValidationError ''group: may not be changed''),
      req [] (Some (JObject [(''group'', JString ''other'')])), [])
   \<and> update demo ctx1 (req [] (Some (JObject [(''group'', JString ''__world__'')]))) [] =
     (Inr (demo_present
             (AnnotationResource (a1\<lparr>document := JObject [(''group'', JString ''__world__'')]\<rparr>) () ())),
      (req [] (Some (JObject [(''group'', JString ''__world__'')])))
        \<lparr>db := [a1\<lparr>document := JObject [(''group'', JString ''__world__'')]\<rparr>, a2]\<rparr>,
      [AnnotationEvent
         ((req [] (Some (JObject [(''group'', JString ''__world__'')])))
            \<lparr>db := [a1\<lparr>document := JObject [(''group'', JString ''__world__'')]\<rparr>, a2]\<rparr>)
         ''a1'' ''update''])"
proof -
  have body1: "json_body (req [] (Some (JObject [(''group'', JString ''other'')])))
                 = Some (JObject [(''group'', JString ''other'')])"
    and body2: "json_body (req [] (Some (JObject [(''group'', JString ''__world__'')])))
                 = Some (JObject [(''group'', JString ''__world__'')])"
    by (simp_all add: req_def)
  have refused: "UpdateAnnotationSchema_validate demo
                   (req [] (Some (JObject [(''group'', JString ''other'')])))
                   (target_uri (annotation ctx1)) (groupid (annotation ctx1))
                   (JObject [(''group'', JString ''other'')])
                 = Inl (ValidationError ''group: may not be changed'')"
    by (simp add: demo_def ctx1_def AnnotationResource_def a1_def)
  have accepted: "UpdateAnnotationSchema_validate demo
                   (req [] (Some (JObject [(''group'', JString ''__world__'')])))
                   (target_uri (annotation ctx1)) (groupid (annotation ctx1))
                   (JObject [(''group'', JString ''__world__'')])
                 = Inr (JObject [(''group'', JString ''__world__'')])"
    by (simp add: demo_def ctx1_def AnnotationResource_def a1_def)
  have stored: "update_annotation demo
                  (db (req [] (Some (JObject [(''group'', JString ''__world__'')]))))
                  (ann_id (annotation ctx1)) (JObject [(''group'', JString ''__world__'')])
                = Inr (a1\<lparr>document := JObject [(''group'', JString ''__world__'')]\<rparr>,
                       [a1\<lparr>document := JObject [(''group'', JString ''__world__'')]\<rparr>, a2])"
    by (simp add: demo_def ctx1_def AnnotationResource_def req_def a1_def a2_def)
  have same: "update (demo\<lparr>update_annotation := update_annotation demo\<rparr>) = update demo"
    by simp
  from update_validates_against_existing_annotation [OF body1, of demo ctx1 "[]"] refused
  have "update (demo\<lparr>update_annotation := update_annotation demo\<rparr>) ctx1
          (req [] (Some (JObject [(''group'', JString ''other'')]))) [] =
        (Inl (ValidationError ''group: may not be changed''),
         req [] (Some (JObject [(''group'', JString ''other'')])), [])"
    by blast
  moreover
  from update_validates_against_existing_annotation [OF body2, of demo ctx1 "[]"] accepted stored
  have "update demo ctx1 (req [] (Some (JObject [(''group'', JString ''__world__'')]))) [] =
     (Inr (AnnotationJSONPresenter_asdict demo
             (AnnotationResource (a1\<lparr>document := JObject [(''group'', JString ''__world__'')]\<rparr>)
                (find_service demo ((req [] (Some (JObject [(''group'', JString ''__world__'')])))
                   \<lparr>db := [a1\<lparr>document := JObject [(''group'', JString ''__world__'')]\<rparr>, a2]\<rparr>)
                   IGroupService)
                (find_service demo ((req [] (Some (JObject [(''group'', JString ''__world__'')])))
                   \<lparr>db := [a1\<lparr>document := JObject [(''group'', JString ''__world__'')]\<rparr>, a2]\<rparr>)
                   (ServiceName ''links'')))),
      (req [] (Some (JObject [(''group'', JString ''__world__'')])))
        \<lparr>db := [a1\<lparr>document := JObject [(''group'', JString ''__world__'')]\<rparr>, a2]\<rparr>,
      [] @ [AnnotationEvent
         ((req [] (Some (JObject [(''group'', JString ''__world__'')])))
            \<lparr>db := [a1\<lparr>document := JObject [(''group'', JString ''__world__'')]\<rparr>, a2]\<rparr>)
         ''a1'' ''update''])"
    by (simp add: ctx1_def AnnotationResource_def a1_def)
  ultimately show ?thesis
    by (simp add: same demo_def)
qed

subsection \<open>The JSON-LD read\<close>

text \<open>
  C7. The JSON-LD read returns what the JSON-LD presenter makes of the context,
  whatever the plain JSON presenter and the storage functions are; it sets the
  response content type to \<open>application/ld+json\<close> and its parameters to the one
  parameter \<open>profile\<close> with the presenter's \<open>CONTEXT_URL\<close>; the session, the rest of
  the request and the registered events are as they were.
\<close>

theorem read_jsonld_sets_profile:
  "read_jsonld c ctx request q =
     (Inr (AnnotationJSONLDPresenter_asdict c ctx),
      request\<lparr>response := (response request)
         \<lparr>resp_content_type := ''application/ld+json'',
          resp_content_type_params := [(''profile'', CONTEXT_URL c)]\<rparr>\<rparr>,
      q)
   \<and> read_jsonld (c\<lparr>AnnotationJSONPresenter_asdict := p, create_annotation := f,
                      update_annotation := g, delete_annotation := h\<rparr>) ctx request q
       = read_jsonld c ctx request q
   \<and> db (fst (snd (read_jsonld c ctx request q))) = db request
   \<and> resp_status_code (response (fst (snd (read_jsonld c ctx request q))))
       = resp_status_code (response request)"
  by (simp add: read_jsonld_def Let_def)

theorem read_jsonld_sets_profile_witness:
  "read_jsonld demo ctx1 (req [] None) [] =
     (Inr (JObject [(''@context'', JString ''http://www.w3.org/ns/anno.jsonld''),
                    (''id'', JString ''a1'')]),
      (req [] None)\<lparr>response :=
         \<lparr>resp_status_code = 200, resp_content_type = ''application/ld+json'',
          resp_content_type_params = [(''profile'', ''http://www.w3.org/ns/anno.jsonld'')]\<rparr>\<rparr>,
      [])"
  using read_jsonld_sets_profile [of demo ctx1 "req [] None" "[]"]
  by (simp add: demo_def demo_present_ld_def ctx1_def AnnotationResource_def a1_def req_def)

subsection \<open>The index document\<close>

lemma replace_123_keeps_3:
  "prefix ''3'' (replace_nonempty ''123'' '':id'' u) \<Longrightarrow> prefix ''3'' u"
  by (subst (asm) replace_nonempty.simps) (cases u; auto split: if_splits)

lemma replace_123_keeps_23:
  "prefix ''23'' (replace_nonempty ''123'' '':id'' t) \<Longrightarrow> prefix ''23'' t"
  by (subst (asm) replace_nonempty.simps)
     (cases t; auto split: if_splits dest: replace_123_keeps_3)

lemma replace_123_leaves_none:
  "\<not> sublist ''123'' (replace_nonempty ''123'' '':id'' s)"
proof (induction "''123''" "'':id''" s rule: replace_nonempty.induct)
  case (1 s)
  show ?case
  proof (cases "s = []")
    case True
    then show ?thesis by (simp add: replace_nonempty.simps)
  next
    case False
    show ?thesis
    proof (cases "prefix ''123'' s")
      case True
      with False 1(1)
      have "\<not> sublist ''123'' (replace_nonempty ''123'' '':id'' (drop (length ''123'') s))"
        by simp
      moreover have "replace_nonempty ''123'' '':id'' s =
          '':id'' @ replace_nonempty ''123'' '':id'' (drop (length ''123'') s)"
        using True False by (subst replace_nonempty.simps) simp
      ultimately show ?thesis by (simp add: sublist_Cons_right)
    next
      case differs: False
      with False 1(2) have rest: "\<not> sublist ''123'' (replace_nonempty ''123'' '':id'' (tl s))"
        by simp
      have step: "replace_nonempty ''123'' '':id'' s = hd s # replace_nonempty ''123'' '':id'' (tl s)"
        using differs False by (subst replace_nonempty.simps) simp
      have "\<not> prefix ''123'' (hd s # replace_nonempty ''123'' '':id'' (tl s))"
      proof
        assume "prefix ''123'' (hd s # replace_nonempty ''123'' '':id'' (tl s))"
        then have one: "hd s = CHR ''1''"
          and "prefix ''23'' (replace_nonempty ''123'' '':id'' (tl s))" by auto
        then have "prefix ''23'' (tl s)" by (auto dest: replace_123_keeps_23)
        with one False have "prefix ''123'' s" by (cases s) auto
        with differs show False by simp
      qed
      with rest step show ?thesis by (simp add: sublist_Cons_right)
    qed
  qed
qed

text \<open>
  C9. The \<open>url\<close> of the read, update and delete entries of the descriptor is one and
  the same string: the route URL generated for the id \<open>123\<close> with every occurrence of
  \<open>123\<close> replaced by \<open>:id\<close>. No \<open>123\<close> is left in it, wherever in the generated URL
  it stood.
\<close>

theorem index_annotation_url_template:
  "\<exists>doc. index c ctx request q = (Inr doc, request, q)
     \<and> json_path doc [''links'', ''annotation'', ''read'', ''url''] =
         Some (JString (str_replace (route_url c request ''api.annotation'' [(''id'', ''123'')])
                          ''123'' '':id''))
     \<and> json_path doc [''links'', ''annotation'', ''update'', ''url''] =
         Some (JString (str_replace (route_url c request ''api.annotation'' [(''id'', ''123'')])
                          ''123'' '':id''))
     \<and> json_path doc [''links'', ''annotation'', ''delete'', ''url''] =
         Some (JString (str_replace (route_url c request ''api.annotation'' [(''id'', ''123'')])
                          ''123'' '':id''))
     \<and> \<not> sublist ''123''
           (str_replace (route_url c request ''api.annotation'' [(''id'', ''123'')]) ''123'' '':id'')"
  by (simp add: index_def Let_def str_replace_def replace_123_leaves_none)

theorem index_annotation_url_template_witness:
  "route_url demo (req [] None) ''api.annotation'' [(''id'', ''123'')]
     = ''http://h123.example/api/annotations/123''
   \<and> (\<exists>doc. index demo () (req [] None) [] = (Inr doc, req [] None, [])
        \<and> json_path doc [''links'', ''annotation'', ''read'', ''url'']
            = Some (JString ''http://h:id.example/api/annotations/:id'')
        \<and> json_path doc [''links'', ''annotation'', ''update'', ''url'']
            = Some (JString ''http://h:id.example/api/annotations/:id'')
        \<and> json_path doc [''links'', ''annotation'', ''delete'', ''url'']
            = Some (JString ''http://h:id.example/api/annotations/:id''))"
proof -
  have url: "route_url demo (req [] None) ''api.annotation'' [(''id'', ''123'')]
      = ''http://h123.example/api/annotations/123''"
    by (simp add: demo_def)
  have templ: "str_replace ''http://h123.example/api/annotations/123'' ''123'' '':id''
      = ''http://h:id.example/api/annotations/:id''"
    by (simp add: str_replace_def replace_nonempty.simps)
  show ?thesis
    using index_annotation_url_template [of demo "()" "req [] None" "[]"]
    by (simp add: url templ) blast
qed

end
